theory Spec2Isabelle
  imports Main "HOL-Library.Word"
begin

unbundle bit_operations_syntax

section \<open>Kernel types, constants and primitives\<close>

text \<open>
  The character-device layer of the SG DMA engine (\<open>cdev_sgdma.c\<close>) is embedded as pure
  functions with explicit state passing: every handler takes the engine it finds behind
  \<open>filp->private_data\<close> and returns the engine as it leaves it, next to its return value
  and to whatever caller memory or file state it may have written.

  C types: \<open>int\<close> is \<open>32 word\<close>; \<open>ssize_t\<close>, \<open>size_t\<close>, \<open>loff_t\<close>, \<open>unsigned long\<close> and
  user pointers are \<open>64 word\<close>. Signed comparisons of the source (\<open>rv < 0\<close>, \<open>rv > 0\<close>) are
  the signed order \<open><s\<close> on words.
\<close>

type_synonym c_int = "32 word"
type_synonym c_long = "64 word"

text \<open>Error numbers of the kernel headers (\<open>errno-base.h\<close>, \<open>errno.h\<close>), used at both widths.\<close>

definition EACCES :: "'a::len word" where "EACCES = 13"
definition EFAULT :: "'a::len word" where "EFAULT = 14"
definition EBUSY :: "'a::len word" where "EBUSY = 16"
definition ENODEV :: "'a::len word" where "ENODEV = 19"
definition ENOTTY :: "'a::len word" where "ENOTTY = 25"
definition ENOTSUPP :: "'a::len word" where "ENOTSUPP = 524"

text \<open>Open flags and file modes of the kernel headers (\<open>fcntl.h\<close>, \<open>fs.h\<close>).\<close>

definition O_ACCMODE :: c_int where "O_ACCMODE = 3"
definition O_RDONLY :: c_int where "O_RDONLY = 0"
definition O_WRONLY :: c_int where "O_WRONLY = 1"
definition O_TRUNC :: c_int where "O_TRUNC = 512"
definition FMODE_READ :: c_int where "FMODE_READ = 1"
definition FMODE_WRITE :: c_int where "FMODE_WRITE = 2"

text \<open>
  The atomic bit operations of the kernel on one \<open>unsigned long\<close>:
  \<open>test_and_set_bit\<close> sets the bit and returns its old value, \<open>clear_bit\<close> clears it.
\<close>

definition test_and_set_bit :: "nat \<Rightarrow> c_long \<Rightarrow> bool \<times> c_long" where
  "test_and_set_bit nr w = (bit w nr, set_bit nr w)"

definition clear_bit :: "nat \<Rightarrow> c_long \<Rightarrow> c_long" where
  "clear_bit nr w = unset_bit nr w"

text \<open>
  Modelled from the spec: the bit numbers \<open>XENGINE_BUSY_BIT\<close> and \<open>XENGINE_OPEN_BIT\<close> are
  declared in \<open>libxdma2.h\<close>, which is not among the sources. The specification makes
  \<open>busy\<close> and \<open>open\<close> two independent atomic flags of the engine, so two distinct bits of
  \<open>flags\<close> stand for them. No proof below unfolds these two definitions except to
  evaluate a concrete instance.
\<close>

definition XENGINE_BUSY_BIT :: nat where "XENGINE_BUSY_BIT = 0"
definition XENGINE_OPEN_BIT :: nat where "XENGINE_OPEN_BIT = 1"

section \<open>Caller memory\<close>

text \<open>
  One object of the caller's address space, as the user-access primitives see it:
  not mapped at all, mapped read-only, or mapped writable. \<open>get_user\<close> and
  \<open>__get_user\<close> return 0 and the value, or \<open>-EFAULT\<close> (and then store zero in the
  destination); \<open>put_user\<close> and \<open>__put_user\<close> return 0 and store, or \<open>-EFAULT\<close>.
\<close>

datatype 'a ucell = Unmapped | ReadOnly 'a | Mapped 'a

fun uread :: "'a ucell \<Rightarrow> 'a option" where
  "uread Unmapped = None"
| "uread (ReadOnly v) = Some v"
| "uread (Mapped v) = Some v"

fun uwrite :: "'a ucell \<Rightarrow> 'a \<Rightarrow> 'a ucell option" where
  "uwrite (Mapped _) v = Some (Mapped v)"
| "uwrite _ v = None"


text \<open>
  \<open>copy_from_user(to, from, n)\<close> copies bytes until the first one that faults, pads the
  destination with zero bytes and returns the number of bytes it could not copy, an
  \<open>unsigned long\<close>: 0 on success, never a negative error number. \<open>copy_to_user\<close>
  likewise returns the number of bytes left. A byte beyond the end of the list that
  stands for the caller's region is not mapped.
\<close>

fun readable_prefix :: "'a ucell list \<Rightarrow> 'a list" where
  "readable_prefix [] = []"
| "readable_prefix (c # cs) =
     (case uread c of None \<Rightarrow> [] | Some v \<Rightarrow> v # readable_prefix cs)"

definition copy_from_user :: "8 word ucell list \<Rightarrow> nat \<Rightarrow> c_long \<times> 8 word list" where
  "copy_from_user from n =
     (let got = readable_prefix (take n from);
          left = n - length got
      in (of_nat left, got @ replicate left 0))"

fun write_prefix :: "'a ucell list \<Rightarrow> 'a list \<Rightarrow> nat \<times> 'a ucell list" where
  "write_prefix (c # cs) (v # vs) =
     (case uwrite c v of
        None \<Rightarrow> (0, c # cs)
      | Some c' \<Rightarrow> (let (k, cs') = write_prefix cs vs in (Suc k, c' # cs')))"
| "write_prefix cs vs = (0, cs)"

definition copy_to_user :: "8 word ucell list \<Rightarrow> 8 word list \<Rightarrow> nat \<Rightarrow> c_long \<times> 8 word ucell list" where
  "copy_to_user to from n =
     (let (k, to') = write_prefix to (take n (from @ replicate n 0))
      in (of_nat (n - k), to'))"

section \<open>Engine, file and request\<close>

datatype dma_data_direction = DMA_BIDIRECTIONAL | DMA_TO_DEVICE | DMA_FROM_DEVICE | DMA_NONE

text \<open>
  \<open>enum xdma2_transfer_mode\<close> is declared in \<open>xdma2_ioctl.h\<close>, which is not among the
  sources; the handler compares the value it reads with \<open>XDMA_H2C\<close> and \<open>XDMA_C2H\<close>
  only. Any other integer found in the caller's memory is \<open>XDMA_MODE_OTHER\<close>.
\<close>

datatype xdma2_transfer_mode = XDMA_H2C | XDMA_C2H | XDMA_MODE_OTHER

record xdma2_transfer_params =
  buf :: c_long
  length_p :: c_long
  ep_addr :: c_long

text \<open>
  The fields of \<open>struct xdma2_engine\<close> that this file reads or writes. The performance
  configuration \<open>xdma2_perf\<close> is kept as the bytes of the structure.
\<close>

record xdma2_engine =
  flags :: c_long
  dir :: dma_data_direction
  streaming :: bool
  non_incr_addr :: bool
  eop_flush :: bool
  addr_align :: "8 word"
  transfer_params :: xdma2_transfer_params
  xdma2_perf :: "8 word list"

record struct_file =
  f_flags :: c_int
  f_mode :: c_int

text \<open>\<open>struct xdma2_transfer_request\<close> in the caller's memory, field by field.\<close>

record user_request =
  req_mode :: "xdma2_transfer_mode ucell"
  req_buf :: "c_long ucell"
  req_length :: "c_long ucell"
  req_axi_address :: "c_long ucell"


section \<open>External collaborators\<close>

text \<open>
  Everything the handlers call that is defined outside this file is a parameter: the
  macros \<open>access_assert\<close> and \<open>xdma2_debug_assert_msg\<close> and the routines
  \<open>xdma2_xfer_submit\<close>, \<open>xdma2_performance_submit\<close> and \<open>xcdev_check\<close> of the driver
  library, the sizes of the two ioctl structures, and \<open>generic_file_open\<close> and
  \<open>stream_open\<close> of the kernel. The two submission routines receive the engine by
  pointer, so they return the engine as they leave it. \<open>debug_asserts\<close> says whether a
  failed \<open>xdma2_debug_assert_msg\<close> makes the enclosing function return its error
  value; an assertion that holds does nothing.
\<close>

record env =
  access_assert :: "c_long \<Rightarrow> c_long \<Rightarrow> c_int"
  xdma2_xfer_submit :: "xdma2_engine \<Rightarrow> c_long \<times> xdma2_engine"
  xdma2_performance_submit :: "xdma2_engine \<Rightarrow> c_int \<times> xdma2_engine"
  xcdev_check :: "struct_file \<Rightarrow> c_int"
  generic_file_open :: "struct_file \<Rightarrow> c_int"
  stream_open :: "struct_file \<Rightarrow> struct_file"
  debug_asserts :: bool
  sizeof_xdma2_performance_ioctl :: nat
  sizeof_xdma2_transfer_request :: c_long

text \<open>
  Modelled from the spec: \<open>engine_addrmode_set\<close> is defined in the driver library, which
  is not among the sources. The specification says that the boolean is assigned to
  \<open>nonIncrementingAddress\<close>.
\<close>

definition engine_addrmode_set :: "xdma2_engine \<Rightarrow> bool \<Rightarrow> xdma2_engine" where
  "engine_addrmode_set engine set_v = engine\<lparr>non_incr_addr := set_v\<rparr>"

section \<open>The byte-stream path\<close>

definition char_sgdma_read_write ::
  "env \<Rightarrow> xdma2_engine \<Rightarrow> c_long \<Rightarrow> c_long \<Rightarrow> c_long \<Rightarrow> c_long \<times> xdma2_engine \<times> c_long" where
  "char_sgdma_read_write env engine ubuf count pos =
     (let (was_set, fl) = test_and_set_bit XENGINE_BUSY_BIT (flags engine);
          e1 = engine\<lparr>flags := fl\<rparr>
      in if was_set then (- EBUSY, e1, pos)
         else
           let e2 = e1\<lparr>transfer_params := (transfer_params e1)\<lparr>buf := ubuf, length_p := count\<rparr>\<rparr>;
               e3 = (if \<not> streaming e2
                     then e2\<lparr>transfer_params := (transfer_params e2)\<lparr>ep_addr := pos\<rparr>\<rparr>
                     else e2);
               (rv, e4) = xdma2_xfer_submit env e3;
               pos' = (if \<not> streaming e4 \<and> \<not> non_incr_addr e4 \<and> 0 <s rv then pos + rv else pos);
               e5 = e4\<lparr>flags := clear_bit XENGINE_BUSY_BIT (flags e4)\<rparr>
           in (rv, e5, pos'))"


section \<open>The command interface\<close>

text \<open>The label \<open>exit:\<close> of the ioctl handlers: clear the busy bit and return \<open>rv\<close>.\<close>

definition exit_busy :: "c_int \<Rightarrow> xdma2_engine \<Rightarrow> 'u \<Rightarrow> c_int \<times> xdma2_engine \<times> 'u" where
  "exit_busy rv engine u = (rv, engine\<lparr>flags := clear_bit XENGINE_BUSY_BIT (flags engine)\<rparr>, u)"

definition ioctl_do_perf_test ::
  "env \<Rightarrow> xdma2_engine \<Rightarrow> 8 word ucell list \<Rightarrow> c_int \<times> xdma2_engine \<times> 8 word ucell list" where
  "ioctl_do_perf_test env engine arg =
     (let (was_set, fl) = test_and_set_bit XENGINE_BUSY_BIT (flags engine);
          e1 = engine\<lparr>flags := fl\<rparr>
      in if was_set then (- EBUSY, e1, arg)
         else
           let (left, bytes) = copy_from_user arg (sizeof_xdma2_performance_ioctl env);
               e2 = e1\<lparr>xdma2_perf := bytes\<rparr>;
               rv = (ucast left :: c_int)
           in if rv <s 0 then exit_busy rv e2 arg
              else
                let (rv, e3) = xdma2_performance_submit env e2
                in if rv <s 0 then exit_busy rv e3 arg
                   else
                     let (left, arg') = copy_to_user arg (xdma2_perf e3)
                                          (sizeof_xdma2_performance_ioctl env);
                         rv = (ucast left :: c_int)
                     in exit_busy rv e3 arg')"

definition ioctl_do_addrmode_set ::
  "xdma2_engine \<Rightarrow> c_int ucell \<Rightarrow> c_int \<times> xdma2_engine" where
  "ioctl_do_addrmode_set engine arg =
     (case uread arg of
        None \<Rightarrow> (- EFAULT, engine)
      | Some v \<Rightarrow>
          let set_v = (v \<noteq> 0);
              (was_set, fl) = test_and_set_bit XENGINE_BUSY_BIT (flags engine);
              e1 = engine\<lparr>flags := fl\<rparr>
          in if was_set then (- EBUSY, e1)
             else
               let e2 = engine_addrmode_set e1 set_v;
                   e3 = e2\<lparr>flags := clear_bit XENGINE_BUSY_BIT (flags e2)\<rparr>
               in (0, e3))"



definition ioctl_do_submit_transfer ::
  "env \<Rightarrow> xdma2_engine \<Rightarrow> c_long \<Rightarrow> user_request \<Rightarrow> c_int \<times> xdma2_engine \<times> user_request" where
  "ioctl_do_submit_transfer env engine arg req =
     (let rv = access_assert env arg (sizeof_xdma2_transfer_request env)
      in if rv <s 0 then (rv, engine, req)
         else
           case uread (req_mode req) of
             None \<Rightarrow> (- EFAULT, engine, req)
           | Some transfer_mode \<Rightarrow>
               if \<not> (transfer_mode = XDMA_H2C \<and> dir engine = DMA_TO_DEVICE) \<and>
                  \<not> (transfer_mode = XDMA_C2H \<and> dir engine = DMA_FROM_DEVICE)
               then (- ENOTSUPP, engine, req)
               else
                 let (was_set, fl) = test_and_set_bit XENGINE_BUSY_BIT (flags engine);
                     e1 = engine\<lparr>flags := fl\<rparr>
                 in if was_set then (- EBUSY, e1, req)
                    else
                      (case uread (req_buf req) of
                        None \<Rightarrow>
                          exit_busy (- EFAULT)
                            (e1\<lparr>transfer_params := (transfer_params e1)\<lparr>buf := 0\<rparr>\<rparr>) req
                      | Some b \<Rightarrow>
                          let e2 = e1\<lparr>transfer_params := (transfer_params e1)\<lparr>buf := b\<rparr>\<rparr>
                          in (case uread (req_length req) of
                               None \<Rightarrow>
                                 exit_busy (- EFAULT)
                                   (e2\<lparr>transfer_params := (transfer_params e2)\<lparr>length_p := 0\<rparr>\<rparr>) req
                             | Some l \<Rightarrow>
                                 let e3 = e2\<lparr>transfer_params := (transfer_params e2)\<lparr>length_p := l\<rparr>\<rparr>;
                                     rv = access_assert env (buf (transfer_params e3))
                                            (length_p (transfer_params e3))
                                 in if rv <s 0
                                    then exit_busy rv
                                           (e3\<lparr>transfer_params :=
                                                 (transfer_params e3)\<lparr>buf := 0, length_p := 0\<rparr>\<rparr>) req
                                    else
                                      let (rv, e4) =
                                            (if \<not> streaming e3
                                             then (case uread (req_axi_address req) of
                                                     None \<Rightarrow>
                                                       (- EFAULT,
                                                        e3\<lparr>transfer_params :=
                                                             (transfer_params e3)\<lparr>ep_addr := 0\<rparr>\<rparr>)
                                                   | Some a \<Rightarrow>
                                                       (0,
                                                        e3\<lparr>transfer_params :=
                                                             (transfer_params e3)\<lparr>ep_addr := a\<rparr>\<rparr>))
                                             else (rv, e3))
                                      in if rv <s 0 then exit_busy rv e4 req
                                         else
                                           let (transfer_res, e5) = xdma2_xfer_submit env e4
                                           in if transfer_res <s 0
                                              then (case uwrite (req_length req) 0 of
                                                      None \<Rightarrow> exit_busy (- EFAULT) e5 req
                                                    | Some c \<Rightarrow>
                                                        exit_busy (ucast transfer_res) e5
                                                          (req\<lparr>req_length := c\<rparr>))
                                              else (case uwrite (req_length req) transfer_res of
                                                      None \<Rightarrow> exit_busy (- EFAULT) e5 req
                                                    | Some c \<Rightarrow>
                                                        exit_busy 0 e5 (req\<lparr>req_length := c\<rparr>)))))"



section \<open>Device node lifecycle\<close>

text \<open>
  The label \<open>not_open:\<close> of \<open>char_sgdma_open\<close>: the open bit is cleared again when the
  file cannot be opened.
\<close>

definition not_open :: "c_int \<Rightarrow> xdma2_engine \<Rightarrow> struct_file \<Rightarrow> c_int \<times> xdma2_engine \<times> struct_file" where
  "not_open ret_val engine filp =
     (ret_val,
      if ret_val <s 0 then engine\<lparr>flags := clear_bit XENGINE_OPEN_BIT (flags engine)\<rparr> else engine,
      filp)"

text \<open>
  The second half of \<open>char_sgdma_open\<close>, which both direction branches reach once the
  access mode has been accepted: streaming or memory-mapped set-up, then \<open>not_open:\<close>.
\<close>

definition sgdma_open_setup :: "env \<Rightarrow> xdma2_engine \<Rightarrow> struct_file \<Rightarrow> c_int \<times> xdma2_engine \<times> struct_file" where
  "sgdma_open_setup env engine filp =
     (if streaming engine
      then
        let filp' = stream_open env filp;
            e1 = engine\<lparr>eop_flush := (f_flags filp' AND O_TRUNC \<noteq> 0)\<rparr>
        in not_open 0 e1 filp'
      else
        let ret_val = generic_file_open env filp
        in if ret_val <s 0 then not_open ret_val engine filp
           else not_open ret_val (engine_addrmode_set engine (f_flags filp AND O_TRUNC \<noteq> 0)) filp)"

definition char_sgdma_open :: "env \<Rightarrow> xdma2_engine \<Rightarrow> struct_file \<Rightarrow> c_int \<times> xdma2_engine \<times> struct_file" where
  "char_sgdma_open env engine filp =
     (let (was_set, fl) = test_and_set_bit XENGINE_OPEN_BIT (flags engine);
          e1 = engine\<lparr>flags := fl\<rparr>
      in if was_set then (- EBUSY, e1, filp)
         else if debug_asserts env \<and> \<not> (dir e1 = DMA_TO_DEVICE \<or> dir e1 = DMA_FROM_DEVICE)
         then (- ENODEV, e1, filp)
         else if dir e1 = DMA_TO_DEVICE
         then
           if f_flags filp AND O_ACCMODE \<noteq> O_WRONLY then not_open (- EACCES) e1 filp
           else sgdma_open_setup env e1 (filp\<lparr>f_mode := f_mode filp AND NOT FMODE_READ\<rparr>)
         else
           if f_flags filp AND O_ACCMODE \<noteq> O_RDONLY then not_open (- EACCES) e1 filp
           else sgdma_open_setup env e1 (filp\<lparr>f_mode := f_mode filp AND NOT FMODE_WRITE\<rparr>))"

definition char_sgdma_close :: "env \<Rightarrow> xdma2_engine \<Rightarrow> struct_file \<Rightarrow> c_int \<times> xdma2_engine" where
  "char_sgdma_close env engine filp =
     (let rv = xcdev_check env filp
      in if rv <s 0 then (rv, engine)
         else (0, engine\<lparr>flags := clear_bit XENGINE_OPEN_BIT (flags engine)\<rparr>))"



section \<open>Sample inputs\<close>

text \<open>
  Concrete collaborators and inputs on which the theorems below are instantiated. The
  sample environment rejects only the null pointer in \<open>access_assert\<close>, lets the
  transfer submission return the given result \<open>r\<close>, and lets the performance submission
  succeed after incrementing every byte of the configuration it was given.
\<close>

definition env_returning :: "c_long \<Rightarrow> env" where
  "env_returning r =
     \<lparr>access_assert = (\<lambda>p n. if p = 0 then - EFAULT else 0),
      xdma2_xfer_submit = (\<lambda>e. (r, e)),
      xdma2_performance_submit = (\<lambda>e. (0, e\<lparr>xdma2_perf := map (\<lambda>b. b + 1) (xdma2_perf e)\<rparr>)),
      xcdev_check = (\<lambda>f. 0),
      generic_file_open = (\<lambda>f. 0),
      stream_open = (\<lambda>f. f),
      debug_asserts = True,
      sizeof_xdma2_performance_ioctl = 4,
      sizeof_xdma2_transfer_request = 32\<rparr>"

definition engine_h2c :: xdma2_engine where
  "engine_h2c =
     \<lparr>flags = 0, dir = DMA_TO_DEVICE, streaming = False, non_incr_addr = False,
      eop_flush = False, addr_align = 1,
      transfer_params = \<lparr>buf = 0, length_p = 0, ep_addr = 0\<rparr>,
      xdma2_perf = [0, 0, 0, 0]\<rparr>"

definition request_h2c :: user_request where
  "request_h2c =
     \<lparr>req_mode = Mapped XDMA_H2C, req_buf = Mapped 4096, req_length = Mapped 16,
      req_axi_address = Mapped 0\<rparr>"

definition file_wronly :: struct_file where
  "file_wronly = \<lparr>f_flags = 1, f_mode = 3\<rparr>"

definition file_rdonly :: struct_file where
  "file_rdonly = \<lparr>f_flags = 0, f_mode = 3\<rparr>"

section \<open>Facts about the primitives\<close>

lemma neg_EBUSY_long: "(- EBUSY :: c_long) <s 0"
  by (simp add: EBUSY_def word_sless_alt)

lemma neg_errno_int:
  "(- EBUSY :: c_int) <s 0" "(- EFAULT :: c_int) <s 0" "(- EACCES :: c_int) <s 0"
  "(- ENOTSUPP :: c_int) <s 0" "(- ENODEV :: c_int) <s 0" "(- ENOTTY :: c_int) <s 0"
  by (simp_all add: EBUSY_def EFAULT_def EACCES_def ENOTSUPP_def ENODEV_def ENOTTY_def
        word_sless_alt)

lemma set_bit_held: "bit w n \<Longrightarrow> set_bit n w = (w :: 'a::len word)"
  by (rule bit_eqI) (auto simp add: bit_set_bit_iff)

lemma unset_set_free: "\<not> bit w n \<Longrightarrow> unset_bit n (set_bit n w) = (w :: 'a::len word)"
  by (rule bit_eqI) (auto simp add: bit_set_bit_iff bit_unset_bit_iff)

lemma tas_held: "bit w n \<Longrightarrow> test_and_set_bit n w = (True, w)"
  by (simp add: test_and_set_bit_def set_bit_held)

lemma tas_free: "\<not> bit w n \<Longrightarrow> test_and_set_bit n w = (False, set_bit n w)"
  by (simp add: test_and_set_bit_def)

lemma clear_bit_off: "\<not> bit (clear_bit n w) n"
  by (simp add: clear_bit_def bit_unset_bit_iff)

lemma clear_set_free: "\<not> bit w n \<Longrightarrow> clear_bit n (set_bit n w) = w"
  by (simp add: clear_bit_def unset_set_free)

lemma exit_busy_off: "\<not> bit (flags (fst (snd (exit_busy rv e u)))) XENGINE_BUSY_BIT"
  by (simp add: exit_busy_def clear_bit_off)

section \<open>The busy bit is never leaked\<close>

lemma rw_busy_off:
  "\<not> bit (flags engine) XENGINE_BUSY_BIT \<Longrightarrow>
   \<not> bit (flags (fst (snd (char_sgdma_read_write env engine ubuf count pos)))) XENGINE_BUSY_BIT"
  by (simp add: char_sgdma_read_write_def tas_free Let_def clear_bit_off split: prod.splits)

lemma perf_busy_off:
  "\<not> bit (flags engine) XENGINE_BUSY_BIT \<Longrightarrow>
   \<not> bit (flags (fst (snd (ioctl_do_perf_test env engine parg)))) XENGINE_BUSY_BIT"
  by (simp add: ioctl_do_perf_test_def tas_free Let_def exit_busy_off split: prod.splits)

lemma addrmode_busy_off:
  "\<not> bit (flags engine) XENGINE_BUSY_BIT \<Longrightarrow>
   \<not> bit (flags (snd (ioctl_do_addrmode_set engine iarg))) XENGINE_BUSY_BIT"
  by (simp add: ioctl_do_addrmode_set_def tas_free Let_def clear_bit_off engine_addrmode_set_def
        split: option.splits)

lemma submit_busy_off:
  "\<not> bit (flags engine) XENGINE_BUSY_BIT \<Longrightarrow>
   \<not> bit (flags (fst (snd (ioctl_do_submit_transfer env engine arg req)))) XENGINE_BUSY_BIT"
  by (simp add: ioctl_do_submit_transfer_def tas_free Let_def exit_busy_off
        split: option.splits prod.splits)

text \<open>
  Claim C1. Each of the four operations that take the busy bit (the byte-stream
  read/write, RunPerformanceTest, SetAddressMode and SubmitTransfer), entered while the
  bit is free, returns with the bit clear, whatever the collaborators and the caller's
  memory make it do: success, a failed validation, a faulting copy or a negative
  submission result. The environment, the buffers and the request are arbitrary, so
  every exit path is covered.
\<close>

theorem busy_released_on_every_exit:
  assumes "\<not> bit (flags engine) XENGINE_BUSY_BIT"
  shows "\<not> bit (flags (fst (snd (char_sgdma_read_write env engine ubuf count pos)))) XENGINE_BUSY_BIT \<and>
         \<not> bit (flags (fst (snd (ioctl_do_perf_test env engine parg)))) XENGINE_BUSY_BIT \<and>
         \<not> bit (flags (snd (ioctl_do_addrmode_set engine iarg))) XENGINE_BUSY_BIT \<and>
         \<not> bit (flags (fst (snd (ioctl_do_submit_transfer env engine arg req)))) XENGINE_BUSY_BIT"
  using assms rw_busy_off perf_busy_off addrmode_busy_off submit_busy_off by blast

theorem busy_released_on_every_exit_witness:
  "\<not> bit (flags engine_h2c) XENGINE_BUSY_BIT \<and>
   \<not> bit (flags (fst (snd (char_sgdma_read_write (env_returning 16) engine_h2c 4096 16 0)))) XENGINE_BUSY_BIT \<and>
   \<not> bit (flags (fst (snd (ioctl_do_perf_test (env_returning 16) engine_h2c [])))) XENGINE_BUSY_BIT \<and>
   \<not> bit (flags (snd (ioctl_do_addrmode_set engine_h2c (Mapped 1)))) XENGINE_BUSY_BIT \<and>
   \<not> bit (flags (fst (snd (ioctl_do_submit_transfer (env_returning 16) engine_h2c 8192 request_h2c)))) XENGINE_BUSY_BIT"
proof -
  have free: "\<not> bit (flags engine_h2c) XENGINE_BUSY_BIT"
    by (simp add: engine_h2c_def)
  show ?thesis
    using free
      busy_released_on_every_exit [OF free, of "env_returning 16" 4096 16 0 "[]" "Mapped 1" 8192 request_h2c]
    by simp
qed

section \<open>Performance test: a faulting copy is not noticed\<close>

text \<open>
  Claim C2. The handler compares the result of \<open>copy_from_user\<close> with zero by
  \<open>rv < 0\<close>, but that result is the number of bytes left uncopied and is never
  negative. Here the caller's region has only two of the four bytes of the configuration
  mapped: the copy leaves two bytes uncopied, and instead of stopping the handler submits
  the half-copied, zero-padded configuration to \<open>xdma2_performance_submit\<close> (whose
  effect, every byte incremented, shows in the engine), copies what it can back and
  returns 2, the number of bytes the copy back left over, which is not an error code.
\<close>

theorem perf_test_copy_fault_not_propagated:
  "fst (copy_from_user [Mapped 9, Mapped 9] 4) = 2 \<and>
   ioctl_do_perf_test (env_returning 0) engine_h2c [Mapped 9, Mapped 9] =
     (2, engine_h2c\<lparr>xdma2_perf := [10, 10, 1, 1]\<rparr>, [Mapped 10, Mapped 10])"
  by code_simp

section \<open>SetAddressMode\<close>

text \<open>
  Claim C3, as amended. SetAddressMode first reads the boolean from the caller and fails
  with the fault of that read, whether or not the engine is busy, leaving the engine
  untouched. Only once the value has been read does it try to take the busy bit: if the
  bit is held the call fails with Busy and the engine is unchanged; otherwise the value
  is assigned to \<open>non_incr_addr\<close> and the busy bit is released again.
\<close>

theorem addrmode_set_reads_first:
  "ioctl_do_addrmode_set engine arg =
     (case uread arg of
        None \<Rightarrow> (- EFAULT, engine)
      | Some v \<Rightarrow>
          if bit (flags engine) XENGINE_BUSY_BIT then (- EBUSY, engine)
          else (0, engine\<lparr>non_incr_addr := (v \<noteq> 0)\<rparr>))"
  by (simp add: ioctl_do_addrmode_set_def tas_free tas_held Let_def clear_set_free
        engine_addrmode_set_def split: option.splits)

theorem addrmode_set_reads_first_witness:
  "ioctl_do_addrmode_set engine_h2c (Mapped 1) = (0, engine_h2c\<lparr>non_incr_addr := True\<rparr>) \<and>
   ioctl_do_addrmode_set (engine_h2c\<lparr>flags := 1\<rparr>) (Mapped 1) = (- EBUSY, engine_h2c\<lparr>flags := 1\<rparr>) \<and>
   ioctl_do_addrmode_set (engine_h2c\<lparr>flags := 1\<rparr>) Unmapped = (- EFAULT, engine_h2c\<lparr>flags := 1\<rparr>)"
  using addrmode_set_reads_first [of engine_h2c "Mapped 1"]
    addrmode_set_reads_first [of "engine_h2c\<lparr>flags := 1\<rparr>" "Mapped 1"]
    addrmode_set_reads_first [of "engine_h2c\<lparr>flags := 1\<rparr>" Unmapped]
  by (simp add: engine_h2c_def XENGINE_BUSY_BIT_def)

text \<open>
  The claim as stated fails: on a busy engine, a caller whose pointer faults is told
  \<open>-EFAULT\<close>, not \<open>-EBUSY\<close>.
\<close>

theorem addrmode_set_busy_counterexample:
  "bit (flags (engine_h2c\<lparr>flags := 1\<rparr>)) XENGINE_BUSY_BIT \<and>
   fst (ioctl_do_addrmode_set (engine_h2c\<lparr>flags := 1\<rparr>) Unmapped) = - EFAULT \<and>
   fst (ioctl_do_addrmode_set (engine_h2c\<lparr>flags := 1\<rparr>) Unmapped) \<noteq> - EBUSY"
  by (simp add: ioctl_do_addrmode_set_def XENGINE_BUSY_BIT_def EFAULT_def EBUSY_def)

section \<open>SubmitTransfer\<close>

text \<open>
  Claim C4. When the request region passes the access check and its mode field is read
  as a mode that does not fit the direction of the engine (H2C on an engine that is not
  \<open>DMA_TO_DEVICE\<close>, C2H on one that is not \<open>DMA_FROM_DEVICE\<close>, or any other value), the
  call returns \<open>-ENOTSUPP\<close> and hands back the engine exactly as it found it: the busy
  bit is never taken, so nothing a later caller could observe has changed.
\<close>

theorem submit_mode_mismatch:
  assumes "\<not> access_assert env arg (sizeof_xdma2_transfer_request env) <s 0"
      and "uread (req_mode req) = Some transfer_mode"
      and "\<not> (transfer_mode = XDMA_H2C \<and> dir engine = DMA_TO_DEVICE)"
      and "\<not> (transfer_mode = XDMA_C2H \<and> dir engine = DMA_FROM_DEVICE)"
  shows "ioctl_do_submit_transfer env engine arg req = (- ENOTSUPP, engine, req)"
  using assms by (simp add: ioctl_do_submit_transfer_def)

theorem submit_mode_mismatch_witness:
  "\<not> access_assert (env_returning 16) 8192 (sizeof_xdma2_transfer_request (env_returning 16)) <s 0 \<and>
   uread (req_mode (request_h2c\<lparr>req_mode := Mapped XDMA_C2H\<rparr>)) = Some XDMA_C2H \<and>
   \<not> (XDMA_C2H = XDMA_H2C \<and> dir engine_h2c = DMA_TO_DEVICE) \<and>
   \<not> (XDMA_C2H = XDMA_C2H \<and> dir engine_h2c = DMA_FROM_DEVICE) \<and>
   ioctl_do_submit_transfer (env_returning 16) engine_h2c 8192
       (request_h2c\<lparr>req_mode := Mapped XDMA_C2H\<rparr>) =
     (- ENOTSUPP, engine_h2c, request_h2c\<lparr>req_mode := Mapped XDMA_C2H\<rparr>)"
proof -
  have h1: "\<not> access_assert (env_returning 16) 8192
              (sizeof_xdma2_transfer_request (env_returning 16)) <s 0"
    by (simp add: env_returning_def)
  have h2: "uread (req_mode (request_h2c\<lparr>req_mode := Mapped XDMA_C2H\<rparr>)) = Some XDMA_C2H"
    by simp
  have h3: "\<not> (XDMA_C2H = XDMA_H2C \<and> dir engine_h2c = DMA_TO_DEVICE)"
    by simp
  have h4: "\<not> (XDMA_C2H = XDMA_C2H \<and> dir engine_h2c = DMA_FROM_DEVICE)"
    by (simp add: engine_h2c_def)
  from submit_mode_mismatch [OF h1 h2 h3 h4] h1 h2 h3 h4 show ?thesis
    by blast
qed

text \<open>
  Claim C5. When the call has taken the busy bit and staged the buffer pointer and the
  length it read from the request, and \<open>access_assert\<close> then rejects that region, the
  call returns the value of the failed check, and the engine it leaves behind is the
  engine it found with the staged buffer pointer null and the staged length zero: the
  flags are as before, so the busy bit is clear again, and the request is untouched.
\<close>

theorem submit_inaccessible_buffer:
  assumes "\<not> access_assert env arg (sizeof_xdma2_transfer_request env) <s 0"
      and "uread (req_mode req) = Some transfer_mode"
      and "(transfer_mode = XDMA_H2C \<and> dir engine = DMA_TO_DEVICE) \<or>
           (transfer_mode = XDMA_C2H \<and> dir engine = DMA_FROM_DEVICE)"
      and "\<not> bit (flags engine) XENGINE_BUSY_BIT"
      and "uread (req_buf req) = Some b"
      and "uread (req_length req) = Some l"
      and "access_assert env b l <s 0"
  shows "ioctl_do_submit_transfer env engine arg req =
           (access_assert env b l,
            engine\<lparr>transfer_params := (transfer_params engine)\<lparr>buf := 0, length_p := 0\<rparr>\<rparr>,
            req) \<and>
         \<not> bit (flags (fst (snd (ioctl_do_submit_transfer env engine arg req)))) XENGINE_BUSY_BIT"
  using assms
  by (auto simp add: ioctl_do_submit_transfer_def tas_free Let_def exit_busy_def clear_set_free)

theorem submit_inaccessible_buffer_witness:
  "\<not> access_assert (env_returning 16) 8192 (sizeof_xdma2_transfer_request (env_returning 16)) <s 0 \<and>
   uread (req_mode (request_h2c\<lparr>req_buf := Mapped 0\<rparr>)) = Some XDMA_H2C \<and>
   ((XDMA_H2C = XDMA_H2C \<and> dir engine_h2c = DMA_TO_DEVICE) \<or>
    (XDMA_H2C = XDMA_C2H \<and> dir engine_h2c = DMA_FROM_DEVICE)) \<and>
   \<not> bit (flags engine_h2c) XENGINE_BUSY_BIT \<and>
   uread (req_buf (request_h2c\<lparr>req_buf := Mapped 0\<rparr>)) = Some 0 \<and>
   uread (req_length (request_h2c\<lparr>req_buf := Mapped 0\<rparr>)) = Some 16 \<and>
   access_assert (env_returning 16) 0 16 <s 0 \<and>
   ioctl_do_submit_transfer (env_returning 16) engine_h2c 8192 (request_h2c\<lparr>req_buf := Mapped 0\<rparr>) =
     (access_assert (env_returning 16) 0 16,
      engine_h2c\<lparr>transfer_params := (transfer_params engine_h2c)\<lparr>buf := 0, length_p := 0\<rparr>\<rparr>,
      request_h2c\<lparr>req_buf := Mapped 0\<rparr>)"
proof -
  have h1: "\<not> access_assert (env_returning 16) 8192
              (sizeof_xdma2_transfer_request (env_returning 16)) <s 0"
    by (simp add: env_returning_def)
  have h2: "uread (req_mode (request_h2c\<lparr>req_buf := Mapped 0\<rparr>)) = Some XDMA_H2C"
    by (simp add: request_h2c_def)
  have h3: "(XDMA_H2C = XDMA_H2C \<and> dir engine_h2c = DMA_TO_DEVICE) \<or>
            (XDMA_H2C = XDMA_C2H \<and> dir engine_h2c = DMA_FROM_DEVICE)"
    by (simp add: engine_h2c_def)
  have h4: "\<not> bit (flags engine_h2c) XENGINE_BUSY_BIT"
    by (simp add: engine_h2c_def)
  have h5: "uread (req_buf (request_h2c\<lparr>req_buf := Mapped 0\<rparr>)) = Some 0"
    by simp
  have h6: "uread (req_length (request_h2c\<lparr>req_buf := Mapped 0\<rparr>)) = Some 16"
    by (simp add: request_h2c_def)
  have h7: "access_assert (env_returning 16) 0 16 <s 0"
    by (simp add: env_returning_def neg_errno_int)
  from submit_inaccessible_buffer [OF h1 h2 h3 h4 h5 h6 h7] h1 h2 h3 h4 h5 h6 h7 show ?thesis
    by blast
qed

section \<open>The position cursor\<close>

text \<open>
  A call that finds the busy bit held submits nothing and leaves the cursor alone.
\<close>

lemma read_write_busy:
  assumes "bit (flags engine) XENGINE_BUSY_BIT"
  shows "char_sgdma_read_write env engine ubuf count pos = (- EBUSY, engine, pos)"
  using assms by (simp add: char_sgdma_read_write_def tas_held)

text \<open>
  One call that takes the busy bit: \<open>staged\<close> is the engine as it is handed to
  \<open>xdma2_xfer_submit\<close>, \<open>rv\<close> and \<open>after\<close> are what the submission returns. The
  handler reads \<open>streaming\<close> and \<open>non_incr_addr\<close> once the submission has returned, so
  the engine's mode at the call decides the cursor when the submission leaves these two
  fields as it found them.
\<close>

lemma read_write_submit:
  assumes free: "\<not> bit (flags engine) XENGINE_BUSY_BIT"
      and st: "staged = engine\<lparr>flags := set_bit XENGINE_BUSY_BIT (flags engine),
                 transfer_params :=
                   (if streaming engine
                    then (transfer_params engine)\<lparr>buf := ubuf, length_p := count\<rparr>
                    else (transfer_params engine)\<lparr>buf := ubuf, length_p := count, ep_addr := pos\<rparr>)\<rparr>"
      and sb: "xdma2_xfer_submit env staged = (rv, after)"
      and keep: "streaming after = streaming engine \<and> non_incr_addr after = non_incr_addr engine"
  shows "char_sgdma_read_write env engine ubuf count pos =
           (rv, after\<lparr>flags := clear_bit XENGINE_BUSY_BIT (flags after)\<rparr>,
            if \<not> streaming engine \<and> \<not> non_incr_addr engine \<and> \<not> rv <s 0
            then pos + rv else pos)"
proof -
  have z: "\<not> rv <s 0 \<Longrightarrow> \<not> 0 <s rv \<Longrightarrow> rv = 0"
    by auto
  have p: "0 <s rv \<Longrightarrow> \<not> rv <s 0"
    by auto
  show ?thesis
  proof (cases "streaming engine")
    case True
    with free st sb keep show ?thesis
      by (simp add: char_sgdma_read_write_def tas_free Let_def)
  next
    case False
    with free st sb keep show ?thesis
      using z p by (auto simp add: char_sgdma_read_write_def tas_free Let_def)
  qed
qed

text \<open>
  Claim C6. On an engine whose busy bit is free, a byte-stream read/write returns the
  result \<open>n\<close> of the submission it made on the staged engine. When the engine the call
  is made on is neither streaming nor in non-incrementing-address mode and \<open>n\<close> is not
  negative, the cursor it returns is the old cursor plus \<open>n\<close>; on a streaming engine,
  on an engine in non-incrementing-address mode and after a negative result it is the old
  cursor. A second call, made on the engine and at the cursor the first one left and
  with collaborators of its own, behaves the same way with its own result \<open>m\<close>, so the
  cursor ends at the start plus \<open>n\<close> plus \<open>m\<close> when both calls advance and at the start
  when the engine never advances. The two hypotheses \<open>keep1\<close> and \<open>keep2\<close> say that
  the submission leaves \<open>streaming\<close> and \<open>non_incr_addr\<close> as it found them (the first is
  fixed when the engine is created, the second changes only by command). Positions are
  64-bit, so the sums are machine sums.
\<close>

theorem position_cursor_advance:
  assumes free: "\<not> bit (flags engine) XENGINE_BUSY_BIT"
      and st1: "staged1 = engine\<lparr>flags := set_bit XENGINE_BUSY_BIT (flags engine),
                  transfer_params :=
                    (if streaming engine
                     then (transfer_params engine)\<lparr>buf := ubuf1, length_p := count1\<rparr>
                     else (transfer_params engine)\<lparr>buf := ubuf1, length_p := count1, ep_addr := pos\<rparr>)\<rparr>"
      and sb1: "xdma2_xfer_submit env staged1 = (n, after1)"
      and keep1: "streaming after1 = streaming engine \<and> non_incr_addr after1 = non_incr_addr engine"
      and e1: "engine1 = after1\<lparr>flags := clear_bit XENGINE_BUSY_BIT (flags after1)\<rparr>"
      and p1: "pos1 = (if \<not> streaming engine \<and> \<not> non_incr_addr engine \<and> \<not> n <s 0
                       then pos + n else pos)"
      and st2: "staged2 = engine1\<lparr>flags := set_bit XENGINE_BUSY_BIT (flags engine1),
                  transfer_params :=
                    (if streaming engine1
                     then (transfer_params engine1)\<lparr>buf := ubuf2, length_p := count2\<rparr>
                     else (transfer_params engine1)\<lparr>buf := ubuf2, length_p := count2, ep_addr := pos1\<rparr>)\<rparr>"
      and sb2: "xdma2_xfer_submit env' staged2 = (m, after2)"
      and keep2: "streaming after2 = streaming engine \<and> non_incr_addr after2 = non_incr_addr engine"
      and e2: "engine2 = after2\<lparr>flags := clear_bit XENGINE_BUSY_BIT (flags after2)\<rparr>"
      and p2: "pos2 = (if \<not> streaming engine \<and> \<not> non_incr_addr engine \<and> \<not> m <s 0
                       then pos1 + m else pos1)"
  shows "char_sgdma_read_write env engine ubuf1 count1 pos = (n, engine1, pos1) \<and>
         char_sgdma_read_write env' engine1 ubuf2 count2 pos1 = (m, engine2, pos2) \<and>
         pos2 = pos + (if \<not> streaming engine \<and> \<not> non_incr_addr engine \<and> \<not> n <s 0 then n else 0)
                    + (if \<not> streaming engine \<and> \<not> non_incr_addr engine \<and> \<not> m <s 0 then m else 0)"
proof -
  have a: "char_sgdma_read_write env engine ubuf1 count1 pos = (n, engine1, pos1)"
    using read_write_submit [OF free st1 sb1 keep1] e1 p1 by simp
  have free1: "\<not> bit (flags engine1) XENGINE_BUSY_BIT"
    using e1 by (simp add: clear_bit_off)
  have mode1: "streaming engine1 = streaming engine \<and> non_incr_addr engine1 = non_incr_addr engine"
    using e1 keep1 by simp
  have keep2': "streaming after2 = streaming engine1 \<and> non_incr_addr after2 = non_incr_addr engine1"
    using keep2 mode1 by simp
  have b: "char_sgdma_read_write env' engine1 ubuf2 count2 pos1 = (m, engine2, pos2)"
    using read_write_submit [OF free1 st2 sb2 keep2'] e2 p2 mode1 by simp
  have c: "pos2 = pos + (if \<not> streaming engine \<and> \<not> non_incr_addr engine \<and> \<not> n <s 0 then n else 0)
                    + (if \<not> streaming engine \<and> \<not> non_incr_addr engine \<and> \<not> m <s 0 then m else 0)"
    using p1 p2 by simp
  from a b c show ?thesis by blast
qed

theorem position_cursor_advance_witness:
  "\<not> bit (flags engine_h2c) XENGINE_BUSY_BIT \<and>
   \<not> streaming engine_h2c \<and> \<not> non_incr_addr engine_h2c \<and>
   char_sgdma_read_write (env_returning 8) engine_h2c 4096 16 0 =
     (8, engine_h2c\<lparr>transfer_params := \<lparr>buf = 4096, length_p = 16, ep_addr = 0\<rparr>\<rparr>, 8) \<and>
   char_sgdma_read_write (env_returning 4)
       (engine_h2c\<lparr>transfer_params := \<lparr>buf = 4096, length_p = 16, ep_addr = 0\<rparr>\<rparr>) 8192 16 8 =
     (4, engine_h2c\<lparr>transfer_params := \<lparr>buf = 8192, length_p = 16, ep_addr = 8\<rparr>\<rparr>, 12) \<and>
   (12 :: c_long) = 0 + 8 + 4"
proof -
  define staged1 where
    "staged1 = engine_h2c\<lparr>flags := set_bit XENGINE_BUSY_BIT (flags engine_h2c),
                  transfer_params :=
                    (if streaming engine_h2c
                     then (transfer_params engine_h2c)\<lparr>buf := 4096, length_p := 16\<rparr>
                     else (transfer_params engine_h2c)\<lparr>buf := 4096, length_p := 16, ep_addr := 0\<rparr>)\<rparr>"
  define engine1 where
    "engine1 = staged1\<lparr>flags := clear_bit XENGINE_BUSY_BIT (flags staged1)\<rparr>"
  define pos1 :: c_long where
    "pos1 = (if \<not> streaming engine_h2c \<and> \<not> non_incr_addr engine_h2c \<and> \<not> (8 :: c_long) <s 0
             then 0 + 8 else 0)"
  define staged2 where
    "staged2 = engine1\<lparr>flags := set_bit XENGINE_BUSY_BIT (flags engine1),
                  transfer_params :=
                    (if streaming engine1
                     then (transfer_params engine1)\<lparr>buf := 8192, length_p := 16\<rparr>
                     else (transfer_params engine1)\<lparr>buf := 8192, length_p := 16, ep_addr := pos1\<rparr>)\<rparr>"
  define engine2 where
    "engine2 = staged2\<lparr>flags := clear_bit XENGINE_BUSY_BIT (flags staged2)\<rparr>"
  define pos2 :: c_long where
    "pos2 = (if \<not> streaming engine_h2c \<and> \<not> non_incr_addr engine_h2c \<and> \<not> (4 :: c_long) <s 0
             then pos1 + 4 else pos1)"
  have free: "\<not> bit (flags engine_h2c) XENGINE_BUSY_BIT"
    by (simp add: engine_h2c_def)
  have mode: "\<not> streaming engine_h2c \<and> \<not> non_incr_addr engine_h2c"
    by (simp add: engine_h2c_def)
  have sb1: "xdma2_xfer_submit (env_returning 8) staged1 = (8, staged1)"
    by (simp add: env_returning_def)
  have keep1: "streaming staged1 = streaming engine_h2c \<and>
               non_incr_addr staged1 = non_incr_addr engine_h2c"
    by (simp add: staged1_def)
  have sb2: "xdma2_xfer_submit (env_returning 4) staged2 = (4, staged2)"
    by (simp add: env_returning_def)
  have keep2: "streaming staged2 = streaming engine_h2c \<and>
               non_incr_addr staged2 = non_incr_addr engine_h2c"
    by (simp add: staged2_def engine1_def staged1_def)
  have v1: "pos1 = 8"
    using mode by (simp add: pos1_def word_sless_alt)
  have v2: "pos2 = 12"
    using mode by (simp add: pos2_def v1 word_sless_alt)
  have g1: "engine1 = engine_h2c\<lparr>transfer_params := \<lparr>buf = 4096, length_p = 16, ep_addr = 0\<rparr>\<rparr>"
    unfolding engine1_def staged1_def by code_simp
  have g2: "engine2 = engine_h2c\<lparr>transfer_params := \<lparr>buf = 8192, length_p = 16, ep_addr = 8\<rparr>\<rparr>"
    unfolding engine2_def staged2_def v1 g1 by code_simp
  have n8: "\<not> (8 :: c_long) <s 0" and n4: "\<not> (4 :: c_long) <s 0"
    by (simp_all add: word_sless_alt)
  note t = position_cursor_advance [OF free staged1_def sb1 keep1 engine1_def pos1_def
             staged2_def sb2 keep2 engine2_def pos2_def]
  from t free mode n8 n4 show ?thesis
    by (simp add: v1 v2 g1 g2)
qed

section \<open>Read and write are one routine\<close>



section \<open>Device node lifecycle\<close>

lemma not_open_neg:
  "rv <s 0 \<Longrightarrow>
   not_open rv e f = (rv, e\<lparr>flags := clear_bit XENGINE_OPEN_BIT (flags e)\<rparr>, f)"
  by (simp add: not_open_def)

lemma open_setup_rv:
  "sgdma_open_setup env e f = (rv, e', f') \<Longrightarrow>
   rv = (if streaming e then 0 else generic_file_open env f)"
  by (auto simp add: sgdma_open_setup_def Let_def not_open_def split: if_splits)

text \<open>
  Claim C7. On an engine whose open bit is free and whose direction is one of the two
  transfer directions, the access mode the direction requires is write-only for
  \<open>DMA_TO_DEVICE\<close> and read-only for \<open>DMA_FROM_DEVICE\<close>. With any other access mode
  the open fails with \<open>-EACCES\<close> and returns the engine exactly as it found it, the
  open bit clear, so the next open meets a free engine again. Hence an open that does not
  fail had the required access mode; with that mode, the result is 0 on a streaming
  engine and the result of \<open>generic_file_open\<close> on a memory-mapped one.
\<close>

theorem open_checks_access_mode:
  assumes free: "\<not> bit (flags engine) XENGINE_OPEN_BIT"
      and d: "dir engine = DMA_TO_DEVICE \<or> dir engine = DMA_FROM_DEVICE"
      and rq: "required = (if dir engine = DMA_TO_DEVICE then O_WRONLY else O_RDONLY)"
      and res: "char_sgdma_open env engine filp = (rv, engine', filp')"
  shows "if f_flags filp AND O_ACCMODE = required
         then rv = (if streaming engine then 0
                    else generic_file_open env
                           (filp\<lparr>f_mode := f_mode filp AND
                              NOT (if dir engine = DMA_TO_DEVICE then FMODE_READ else FMODE_WRITE)\<rparr>))
         else rv = - EACCES \<and> rv <s 0 \<and> engine' = engine \<and>
              \<not> bit (flags engine') XENGINE_OPEN_BIT"
proof (cases "f_flags filp AND O_ACCMODE = required")
  case True
  with free d rq res show ?thesis
    by (auto simp add: char_sgdma_open_def tas_free Let_def split: if_splits dest: open_setup_rv)
next
  case False
  with free d rq res show ?thesis
    using neg_errno_int(3)
    by (auto simp add: char_sgdma_open_def tas_free Let_def not_open_neg clear_set_free
          split: if_splits)
qed

theorem open_checks_access_mode_witness:
  "\<not> bit (flags engine_h2c) XENGINE_OPEN_BIT \<and>
   dir engine_h2c = DMA_TO_DEVICE \<and>
   f_flags file_rdonly AND O_ACCMODE \<noteq> O_WRONLY \<and>
   char_sgdma_open (env_returning 16) engine_h2c file_rdonly = (- EACCES, engine_h2c, file_rdonly) \<and>
   f_flags file_wronly AND O_ACCMODE = O_WRONLY \<and>
   char_sgdma_open (env_returning 16) engine_h2c file_wronly =
     (0, engine_h2c\<lparr>flags := 2\<rparr>, file_wronly\<lparr>f_mode := 2\<rparr>) \<and>
   (0 :: c_int) = generic_file_open (env_returning 16) (file_wronly\<lparr>f_mode := 2\<rparr>)"
proof -
  have h1: "\<not> bit (flags engine_h2c) XENGINE_OPEN_BIT"
    by (simp add: engine_h2c_def)
  have h2: "dir engine_h2c = DMA_TO_DEVICE \<or> dir engine_h2c = DMA_FROM_DEVICE"
    by (simp add: engine_h2c_def)
  have h3: "O_WRONLY = (if dir engine_h2c = DMA_TO_DEVICE then O_WRONLY else O_RDONLY)"
    by (simp add: engine_h2c_def)
  have r1: "char_sgdma_open (env_returning 16) engine_h2c file_rdonly =
              (- EACCES, engine_h2c, file_rdonly)"
    by code_simp
  have r2: "char_sgdma_open (env_returning 16) engine_h2c file_wronly =
              (0, engine_h2c\<lparr>flags := 2\<rparr>, file_wronly\<lparr>f_mode := 2\<rparr>)"
    by code_simp
  have m1: "f_flags file_rdonly AND O_ACCMODE \<noteq> O_WRONLY"
    by (simp add: file_rdonly_def O_ACCMODE_def O_WRONLY_def)
  have m2: "f_flags file_wronly AND O_ACCMODE = O_WRONLY"
    by (simp add: file_wronly_def O_ACCMODE_def O_WRONLY_def)
  have d1: "dir engine_h2c = DMA_TO_DEVICE"
    by (simp add: engine_h2c_def)
  have s1: "\<not> streaming engine_h2c"
    by (simp add: engine_h2c_def)
  have w: "(0 :: c_int) = generic_file_open (env_returning 16) (file_wronly\<lparr>f_mode := 2\<rparr>)"
    using open_checks_access_mode [OF h1 h2 h3 r2] m2 d1 s1
    by (simp add: file_wronly_def FMODE_READ_def)
  from h1 d1 m1 r1 m2 r2 w show ?thesis by blast
qed

text \<open>
  Claim C8. While the open bit is held, an open fails with \<open>-EBUSY\<close>, the code that
  stands for AlreadyOpen, and returns the engine and the file unchanged, whatever the
  engine, the file and the collaborators are; that code differs from those of
  AccessDenied, Unsupported and Unknown-command. A close that passes its check of the
  device node returns 0 and leaves the engine \<open>closed\<close>, which is the engine with the
  open bit cleared. On that engine, when its direction is one of the two transfer
  directions, an open with the access mode the direction requires does not fail,
  provided \<open>generic_file_open\<close> does not fail on a memory-mapped engine (it is not
  consulted on a streaming one).
\<close>

theorem second_open_rejected_until_close:
  assumes held: "bit (flags engine) XENGINE_OPEN_BIT"
      and cl: "closed = engine\<lparr>flags := clear_bit XENGINE_OPEN_BIT (flags engine)\<rparr>"
  shows "char_sgdma_open env engine filp1 = (- EBUSY, engine, filp1) \<and>
         (- EBUSY :: c_int) \<noteq> - EACCES \<and> (- EBUSY :: c_int) \<noteq> - ENOTSUPP \<and>
         (- EBUSY :: c_int) \<noteq> - ENOTTY \<and>
         (\<not> xcdev_check env filp <s 0 \<longrightarrow> char_sgdma_close env engine filp = (0, closed)) \<and>
         \<not> bit (flags closed) XENGINE_OPEN_BIT \<and>
         ((dir engine = DMA_TO_DEVICE \<or> dir engine = DMA_FROM_DEVICE) \<and>
          f_flags filp2 AND O_ACCMODE =
            (if dir engine = DMA_TO_DEVICE then O_WRONLY else O_RDONLY) \<and>
          (streaming engine \<or> (\<forall>f. \<not> generic_file_open env f <s 0)) \<longrightarrow>
          \<not> fst (char_sgdma_open env closed filp2) <s 0 \<and>
          fst (char_sgdma_open env closed filp2) \<noteq> - EBUSY)"
proof -
  have a: "char_sgdma_open env engine filp1 = (- EBUSY, engine, filp1)"
    using held by (simp add: char_sgdma_open_def tas_held)
  have b: "(- EBUSY :: c_int) \<noteq> - EACCES \<and> (- EBUSY :: c_int) \<noteq> - ENOTSUPP \<and>
           (- EBUSY :: c_int) \<noteq> - ENOTTY"
    by (simp add: EBUSY_def EACCES_def ENOTSUPP_def ENOTTY_def)
  have c: "\<not> xcdev_check env filp <s 0 \<longrightarrow> char_sgdma_close env engine filp = (0, closed)"
    using cl by (simp add: char_sgdma_close_def Let_def)
  have free: "\<not> bit (flags closed) XENGINE_OPEN_BIT"
    using cl by (simp add: clear_bit_off)
  have e: "\<not> fst (char_sgdma_open env closed filp2) <s 0"
    if d: "dir engine = DMA_TO_DEVICE \<or> dir engine = DMA_FROM_DEVICE"
      and acc: "f_flags filp2 AND O_ACCMODE =
                  (if dir engine = DMA_TO_DEVICE then O_WRONLY else O_RDONLY)"
      and gfo: "streaming engine \<or> (\<forall>f. \<not> generic_file_open env f <s 0)"
  proof -
    obtain ro opened filp2' where op: "char_sgdma_open env closed filp2 = (ro, opened, filp2')"
      by (cases "char_sgdma_open env closed filp2") auto
    have "\<not> ro <s 0"
      using op free d acc gfo cl
      by (auto simp add: char_sgdma_open_def tas_free Let_def split: if_splits
            dest!: open_setup_rv)
    with op show ?thesis by simp
  qed
  have f: "fst (char_sgdma_open env closed filp2) \<noteq> - EBUSY"
    if "\<not> fst (char_sgdma_open env closed filp2) <s 0"
    using that neg_errno_int(1) by auto
  show ?thesis using a b c free e f by blast
qed

theorem second_open_rejected_until_close_witness:
  "bit (flags (engine_h2c\<lparr>flags := 2\<rparr>)) XENGINE_OPEN_BIT \<and>
   char_sgdma_open (env_returning 16) (engine_h2c\<lparr>flags := 2\<rparr>) file_wronly =
     (- EBUSY, engine_h2c\<lparr>flags := 2\<rparr>, file_wronly) \<and>
   \<not> xcdev_check (env_returning 16) file_wronly <s 0 \<and>
   char_sgdma_close (env_returning 16) (engine_h2c\<lparr>flags := 2\<rparr>) file_wronly = (0, engine_h2c) \<and>
   \<not> bit (flags engine_h2c) XENGINE_OPEN_BIT \<and>
   f_flags file_wronly AND O_ACCMODE = O_WRONLY \<and>
   \<not> fst (char_sgdma_open (env_returning 16) engine_h2c file_wronly) <s 0"
proof -
  have h1: "bit (flags (engine_h2c\<lparr>flags := 2\<rparr>)) XENGINE_OPEN_BIT"
    by (simp add: XENGINE_OPEN_BIT_def)
  have h2: "engine_h2c =
              (engine_h2c\<lparr>flags := 2\<rparr>)\<lparr>flags :=
                 clear_bit XENGINE_OPEN_BIT (flags (engine_h2c\<lparr>flags := 2\<rparr>))\<rparr>"
    by code_simp
  have d: "dir (engine_h2c\<lparr>flags := 2\<rparr>) = DMA_TO_DEVICE"
    by (simp add: engine_h2c_def)
  have chk: "\<not> xcdev_check (env_returning 16) file_wronly <s 0"
    by (simp add: env_returning_def)
  have acc: "f_flags file_wronly AND O_ACCMODE = O_WRONLY"
    by (simp add: file_wronly_def O_ACCMODE_def O_WRONLY_def)
  have gfo: "\<forall>f. \<not> generic_file_open (env_returning 16) f <s 0"
    by (simp add: env_returning_def)
  from second_open_rejected_until_close [OF h1 h2, of "env_returning 16" file_wronly file_wronly file_wronly]
    h1 d chk acc gfo
  show ?thesis by simp
qed

section \<open>SubmitTransfer: writing the result back\<close>

lemma ucast_long_int: "(ucast (w :: c_long) :: c_int) = word_of_int (sint w)"
  by transfer (simp add: take_bit_signed_take_bit)

lemma sint_narrow:
  assumes "- (2 ^ 31) \<le> sint (w :: c_long)" and "sint w < 2 ^ 31"
  shows "sint (ucast w :: c_int) = sint w"
  using assms
  by (simp only: ucast_long_int sint_sbintrunc') (simp add: signed_take_bit_int_eq_self)

lemma neg_narrow:
  assumes "- (2 ^ 31) \<le> sint (w :: c_long)" and "w <s 0"
  shows "sint (ucast w :: c_int) = sint w"
  using assms by (intro sint_narrow) (simp_all add: word_sless_alt)

text \<open>
  Claim C9, as amended. A call reaches the submission when the request region and the
  staged buffer pass \<open>access_assert\<close>, the mode fits the direction, the busy bit was
  free and the fields were read (the device address only on a memory-mapped engine);
  \<open>staged\<close> is the engine handed to \<open>xdma2_xfer_submit\<close>, \<open>transfer_res\<close> its result
  and \<open>released\<close> the engine it leaves, with the busy bit cleared. The handler then
  writes the count, or zero after a negative result, to the length field of the request.
  If that write succeeds, the call returns 0 after a non-negative result and the
  negative result, cast to \<open>int\<close>, otherwise; the cast keeps every value down to
  \<open>-2^31\<close>. If the write itself faults, the call returns \<open>-EFAULT\<close> and the request
  is unchanged. The busy bit is clear in every case.
\<close>

theorem submit_write_back:
  assumes ok: "\<not> access_assert env arg (sizeof_xdma2_transfer_request env) <s 0"
      and md: "uread (req_mode req) = Some transfer_mode"
      and mt: "(transfer_mode = XDMA_H2C \<and> dir engine = DMA_TO_DEVICE) \<or>
               (transfer_mode = XDMA_C2H \<and> dir engine = DMA_FROM_DEVICE)"
      and free: "\<not> bit (flags engine) XENGINE_BUSY_BIT"
      and rb: "uread (req_buf req) = Some b"
      and rl: "uread (req_length req) = Some l"
      and ok2: "\<not> access_assert env b l <s 0"
      and ra: "streaming engine \<or> uread (req_axi_address req) = Some a"
      and st: "staged = engine\<lparr>flags := set_bit XENGINE_BUSY_BIT (flags engine),
                 transfer_params :=
                   (if streaming engine
                    then (transfer_params engine)\<lparr>buf := b, length_p := l\<rparr>
                    else (transfer_params engine)\<lparr>buf := b, length_p := l, ep_addr := a\<rparr>)\<rparr>"
      and sb: "xdma2_xfer_submit env staged = (transfer_res, e5)"
      and rel: "released = e5\<lparr>flags := clear_bit XENGINE_BUSY_BIT (flags e5)\<rparr>"
  shows "ioctl_do_submit_transfer env engine arg req =
           (case uwrite (req_length req) (if transfer_res <s 0 then 0 else transfer_res) of
              None \<Rightarrow> (- EFAULT, released, req)
            | Some c \<Rightarrow>
                (if transfer_res <s 0 then ucast transfer_res else 0, released,
                 req\<lparr>req_length := c\<rparr>)) \<and>
         \<not> bit (flags released) XENGINE_BUSY_BIT \<and>
         (transfer_res <s 0 \<and> - (2 ^ 31) \<le> sint transfer_res \<longrightarrow>
            sint (ucast transfer_res :: c_int) = sint transfer_res)"
proof -
  have main: "ioctl_do_submit_transfer env engine arg req =
           (case uwrite (req_length req) (if transfer_res <s 0 then 0 else transfer_res) of
              None \<Rightarrow> (- EFAULT, released, req)
            | Some c \<Rightarrow>
                (if transfer_res <s 0 then ucast transfer_res else 0, released,
                 req\<lparr>req_length := c\<rparr>))"
  proof (cases "streaming engine")
    case True
    with ok md mt free rb rl ok2 st sb rel show ?thesis
      by (auto simp add: ioctl_do_submit_transfer_def tas_free Let_def exit_busy_def
            split: option.splits)
  next
    case False
    with ra have "uread (req_axi_address req) = Some a" by simp
    with False ok md mt free rb rl ok2 st sb rel show ?thesis
      by (auto simp add: ioctl_do_submit_transfer_def tas_free Let_def exit_busy_def
            split: option.splits)
  qed
  have off: "\<not> bit (flags released) XENGINE_BUSY_BIT"
    using rel by (simp add: clear_bit_off)
  show ?thesis using main off neg_narrow by blast
qed

theorem submit_write_back_witness:
  "ioctl_do_submit_transfer (env_returning 8) engine_h2c 8192 request_h2c =
     (0, engine_h2c\<lparr>transfer_params := \<lparr>buf = 4096, length_p = 16, ep_addr = 0\<rparr>\<rparr>,
      request_h2c\<lparr>req_length := Mapped 8\<rparr>) \<and>
   ioctl_do_submit_transfer (env_returning (- 5)) engine_h2c 8192 request_h2c =
     (- 5, engine_h2c\<lparr>transfer_params := \<lparr>buf = 4096, length_p = 16, ep_addr = 0\<rparr>\<rparr>,
      request_h2c\<lparr>req_length := Mapped 0\<rparr>) \<and>
   sint (ucast (- 5 :: c_long) :: c_int) = sint (- 5 :: c_long)"
proof -
  define staged where
    "staged = engine_h2c\<lparr>flags := set_bit XENGINE_BUSY_BIT (flags engine_h2c),
                 transfer_params :=
                   (if streaming engine_h2c
                    then (transfer_params engine_h2c)\<lparr>buf := 4096, length_p := 16\<rparr>
                    else (transfer_params engine_h2c)\<lparr>buf := 4096, length_p := 16, ep_addr := 0\<rparr>)\<rparr>"
  define released where
    "released = staged\<lparr>flags := clear_bit XENGINE_BUSY_BIT (flags staged)\<rparr>"
  have rel_eq: "released = engine_h2c\<lparr>transfer_params := \<lparr>buf = 4096, length_p = 16, ep_addr = 0\<rparr>\<rparr>"
    unfolding released_def staged_def by code_simp
  have h1: "\<not> access_assert (env_returning r) 8192
              (sizeof_xdma2_transfer_request (env_returning r)) <s 0" for r
    by (simp add: env_returning_def)
  have h2: "uread (req_mode request_h2c) = Some XDMA_H2C"
    by (simp add: request_h2c_def)
  have h3: "(XDMA_H2C = XDMA_H2C \<and> dir engine_h2c = DMA_TO_DEVICE) \<or>
            (XDMA_H2C = XDMA_C2H \<and> dir engine_h2c = DMA_FROM_DEVICE)"
    by (simp add: engine_h2c_def)
  have h4: "\<not> bit (flags engine_h2c) XENGINE_BUSY_BIT"
    by (simp add: engine_h2c_def)
  have h5: "uread (req_buf request_h2c) = Some 4096"
    by (simp add: request_h2c_def)
  have h6: "uread (req_length request_h2c) = Some 16"
    by (simp add: request_h2c_def)
  have h7: "\<not> access_assert (env_returning r) 4096 16 <s 0" for r
    by (simp add: env_returning_def)
  have h8: "streaming engine_h2c \<or> uread (req_axi_address request_h2c) = Some 0"
    by (simp add: request_h2c_def)
  have h9: "xdma2_xfer_submit (env_returning r) staged = (r, staged)" for r
    by (simp add: env_returning_def)
  have w: "uwrite (req_length request_h2c) v = Some (Mapped v)" for v :: c_long
    by (simp add: request_h2c_def)
  have n8: "\<not> (8 :: c_long) <s 0" and n5: "(- 5 :: c_long) <s 0"
    and r5: "- (2 ^ 31) \<le> sint (- 5 :: c_long)" and c5: "(ucast (- 5 :: c_long) :: c_int) = - 5"
    by (simp_all add: word_sless_alt)
  note pos = submit_write_back [OF h1 h2 h3 h4 h5 h6 h7 h8 staged_def h9 released_def, of 8]
  note neg = submit_write_back [OF h1 h2 h3 h4 h5 h6 h7 h8 staged_def h9 released_def, of "- 5"]
  from pos neg show ?thesis
    using n8 n5 r5 by (simp add: w rel_eq c5)
qed

text \<open>
  The claim as stated fails when the length field cannot be written: the submission
  returns 8, a non-negative count, yet the call returns \<open>-EFAULT\<close> and the length
  field keeps its old value.
\<close>

theorem submit_write_back_counterexample:
  "fst (xdma2_xfer_submit (env_returning 8) engine_h2c) = 8 \<and>
   \<not> (8 :: c_long) <s 0 \<and>
   fst (ioctl_do_submit_transfer (env_returning 8) engine_h2c 8192
          (request_h2c\<lparr>req_length := ReadOnly 16\<rparr>)) = - EFAULT \<and>
   fst (ioctl_do_submit_transfer (env_returning 8) engine_h2c 8192
          (request_h2c\<lparr>req_length := ReadOnly 16\<rparr>)) \<noteq> 0 \<and>
   req_length (snd (snd (ioctl_do_submit_transfer (env_returning 8) engine_h2c 8192
          (request_h2c\<lparr>req_length := ReadOnly 16\<rparr>)))) = ReadOnly 16"
  by code_simp

end
